theory Spec2Isabelle
  imports Main "HOL-Library.Sublist" "HOL-Library.AList"
begin

unbundle bit_operations_syntax

section \<open>JavaScript values\<close>

text \<open>
  The values the middleware handles. Primitives are kept apart from objects because the
  code tests them with \<^verbatim>\<open>typeof\<close> and with truthiness. The four error classes of
  \<^verbatim>\<open>errors.js\<close> are constructors of \<open>val\<close>: the middleware only ever builds them and
  stores them as a payload. Numbers are integers.
\<close>

datatype prim = Undefined | Null | Bool bool | Num int | Str string | Sym string

datatype val =
    P prim
  | Arr "val list"
  | Obj "(string \<times> val) list"
  | InvalidRSAA "string list"
  | RequestError val
  | ApiError int string val
  | InternalError val

text \<open>
  What a function throws, or a promise rejects with: any value. The code reads only the
  \<^verbatim>\<open>message\<close> property of such a value, so an object is represented by what that
  property holds: \<^verbatim>\<open>new Error('boom')\<close> is \<open>Failure (P (Str ''boom''))\<close>, an object
  without a message is \<open>Failure (P Undefined)\<close>. A primitive is kept as it is.
\<close>

datatype thrown = Thrown prim | Failure val

definition new_Error :: "string \<Rightarrow> thrown" where
  "new_Error m = Failure (P (Str m))"

text \<open>
  \<^verbatim>\<open>e.message\<close>: reading a property of \<^verbatim>\<open>null\<close> or \<^verbatim>\<open>undefined\<close> throws a
  \<^verbatim>\<open>TypeError\<close>; any other primitive has no such property.
\<close>

fun message_of :: "thrown \<Rightarrow> thrown + val" where
  "message_of (Thrown Undefined) = Inl (new_Error ''TypeError: cannot read property message'')"
| "message_of (Thrown Null) = Inl (new_Error ''TypeError: cannot read property message'')"
| "message_of (Thrown p) = Inr (P Undefined)"
| "message_of (Failure m) = Inr m"

text \<open>
  A field that is either a plain value or a function (\<^verbatim>\<open>typeof x === 'function'\<close>). A
  function either returns (or resolves to) a value, \<open>Inr\<close>, or throws (or rejects), \<open>Inl\<close>
  with the value thrown.
\<close>

datatype 'a dyn = Static val | Dynamic "'a \<Rightarrow> thrown + val"

fun truthy_prim :: "prim \<Rightarrow> bool" where
  "truthy_prim Undefined = False"
| "truthy_prim Null = False"
| "truthy_prim (Bool b) = b"
| "truthy_prim (Num n) = (n \<noteq> 0)"
| "truthy_prim (Str s) = (s \<noteq> [])"
| "truthy_prim (Sym s) = True"

fun truthy :: "val \<Rightarrow> bool" where
  "truthy (P p) = truthy_prim p"
| "truthy v = True"

section \<open>Responses and JSON extraction (util.js)\<close>

text \<open>
  A response of the transport: \<open>headers_get\<close> is \<^verbatim>\<open>res.headers.get\<close> (\<open>None\<close> for
  \<^verbatim>\<open>null\<close>), \<open>json\<close> is the outcome \<^verbatim>\<open>res.json()\<close> has when it is invoked.
\<close>

record response =
  headers_get :: "string \<Rightarrow> string option"
  ok :: bool
  status :: int
  statusText :: string
  json :: "thrown + val"

text \<open>\<^verbatim>\<open>Array.prototype.indexOf\<close> and \<^verbatim>\<open>String.prototype.indexOf\<close>: \<open>-1\<close> when absent.\<close>

fun indexOf :: "'a list \<Rightarrow> 'a \<Rightarrow> int" where
  "indexOf [] x = - 1"
| "indexOf (y # ys) x =
     (if y = x then 0 else (let i = indexOf ys x in if i < 0 then - 1 else i + 1))"

fun str_indexOf :: "string \<Rightarrow> string \<Rightarrow> int" where
  "str_indexOf [] sub = (if sub = [] then 0 else - 1)"
| "str_indexOf (c # cs) sub =
     (if prefix sub (c # cs) then 0
      else (let i = str_indexOf cs sub in if i < 0 then - 1 else i + 1))"

definition emptyCodes :: "int list" where
  "emptyCodes = [204, 205]"

text \<open>
  \<^verbatim>\<open>getJSON\<close>. The second component counts the invocations of the body decoder
  \<^verbatim>\<open>res.json()\<close>. The bitwise complement \<^verbatim>\<open>~i\<close> is truthy unless \<open>i = -1\<close>.
\<close>

definition getJSON :: "response \<Rightarrow> (thrown + val) \<times> nat" where
  "getJSON res =
     (let contentType = headers_get res ''Content-Type'' in
      if \<not> (NOT (indexOf emptyCodes (status res)) \<noteq> 0)
         \<and> (case contentType of None \<Rightarrow> False
             | Some ct \<Rightarrow> ct \<noteq> [] \<and> NOT (str_indexOf ct ''json'') \<noteq> 0)
      then (json res, 1)
      else (Inr (P Undefined), 0))"

text \<open>\<^verbatim>\<open>toLowerCase\<close> on the ASCII letters.\<close>

definition lower_char :: "char \<Rightarrow> char" where
  "lower_char c =
     (let n = (of_char c :: nat) in if 65 \<le> n \<and> n \<le> 90 then char_of (n + 32) else c)"

definition toLowerCase :: "string \<Rightarrow> string" where
  "toLowerCase s = map lower_char s"

definition fakeHeader :: "string \<Rightarrow> string option" where
  "fakeHeader header =
     (if toLowerCase header = ''content-type'' then Some ''application/json''
      else Some ''faked header - cache is only supported for json responses'')"

definition fakeJsonResponse :: "val \<Rightarrow> response" where
  "fakeJsonResponse j =
     \<lparr> headers_get = fakeHeader, ok = True, status = 200, statusText = ''OK'',
       json = Inr j \<rparr>"

section \<open>Type descriptors (util.js)\<close>

text \<open>
  A lifecycle descriptor \<^verbatim>\<open>{ type, payload?, meta? }\<close>; \<open>None\<close> is an absent key, which
  differs from a key holding \<^verbatim>\<open>undefined\<close> under object spread and under
  \<^verbatim>\<open>delete\<close>. The object \<^verbatim>\<open>actionWith\<close> works on and returns may carry an
  \<^verbatim>\<open>error\<close> key as well.
\<close>

record 'a descriptor =
  dtype :: prim
  payload :: "'a dyn option"
  meta :: "'a dyn option"

record 'a fsa = "'a descriptor" +
  error :: "val option"

text \<open>
  One slot of \<^verbatim>\<open>[CALL_API].types\<close>: a value that is not an object, or a descriptor
  object.
\<close>

datatype 'a slot = Bare prim | Full "'a descriptor"

text \<open>
  The argument list of a \<^verbatim>\<open>payload\<close> or \<^verbatim>\<open>meta\<close> function is
  \<^verbatim>\<open>[action, getState(), res]\<close>. The action is the object the function is a part of, so a
  function of the action is given here for that action already: it takes the state and
  the response (\<open>None\<close> when the call passes two arguments).
\<close>

type_synonym 's args = "'s \<times> response option"

definition successPayload :: "'s args \<Rightarrow> thrown + val" where
  "successPayload a =
     (case snd a of
        None \<Rightarrow> Inl (new_Error ''TypeError: res is undefined'')
      | Some res \<Rightarrow> fst (getJSON res))"

definition failurePayload :: "'s args \<Rightarrow> thrown + val" where
  "failurePayload a =
     (case snd a of
        None \<Rightarrow> Inl (new_Error ''TypeError: res is undefined'')
      | Some res \<Rightarrow>
          (case fst (getJSON res) of
             Inl e \<Rightarrow> Inl e
           | Inr j \<Rightarrow> Inr (ApiError (status res) (statusText res) j)))"

text \<open>Array destructuring: a missing element is \<^verbatim>\<open>undefined\<close>.\<close>

definition slot_at :: "'a slot list \<Rightarrow> nat \<Rightarrow> 'a slot" where
  "slot_at ts i = (if i < length ts then ts ! i else Bare Undefined)"

text \<open>\<^verbatim>\<open>typeof t === 'string' || typeof t === 'symbol'\<close> then \<^verbatim>\<open>t = { type: t }\<close>.\<close>

fun wrap :: "'a slot \<Rightarrow> 'a slot" where
  "wrap (Bare (Str s)) = Full \<lparr> dtype = Str s, payload = None, meta = None \<rparr>"
| "wrap (Bare (Sym s)) = Full \<lparr> dtype = Sym s, payload = None, meta = None \<rparr>"
| "wrap t = t"

text \<open>
  \<^verbatim>\<open>{ payload: dflt, ...t }\<close>: the own keys of \<open>t\<close> win; a value that is not an object
  spreads no key (a string would, but is wrapped before).
\<close>

fun withDefault :: "('a \<Rightarrow> thrown + val) \<Rightarrow> 'a slot \<Rightarrow> 'a descriptor" where
  "withDefault dflt (Full d) =
     (case payload d of None \<Rightarrow> d\<lparr>payload := Some (Dynamic dflt)\<rparr> | Some p \<Rightarrow> d)"
| "withDefault dflt (Bare p) =
     \<lparr> dtype = Undefined, payload = Some (Dynamic dflt), meta = None \<rparr>"

definition normalizeTypeDescriptors ::
  "'s args slot list \<Rightarrow> 's args slot \<times> 's args descriptor \<times> 's args descriptor" where
  "normalizeTypeDescriptors ts =
     (let requestType = wrap (slot_at ts 0);
          successType = withDefault successPayload (wrap (slot_at ts 1));
          failureType = withDefault failurePayload (wrap (slot_at ts 2))
      in (requestType, successType, failureType))"

text \<open>
  \<^verbatim>\<open>actionWith\<close> assigns to the descriptor it is given; the model returns the updated
  object. An absent key reads as \<^verbatim>\<open>undefined\<close>, and the assignment creates it. Each
  \<^verbatim>\<open>catch\<close> block builds \<^verbatim>\<open>new InternalError(e.message)\<close>: when that read throws, the
  block throws and the promise \<^verbatim>\<open>actionWith\<close> returns is rejected (\<open>Inl\<close>).
\<close>

definition eval_field :: "'a dyn option \<Rightarrow> 'a \<Rightarrow> thrown + val" where
  "eval_field fld a =
     (case fld of
        None \<Rightarrow> Inr (P Undefined)
      | Some (Static v) \<Rightarrow> Inr v
      | Some (Dynamic f) \<Rightarrow> f a)"

definition actionWith :: "'a fsa \<Rightarrow> 'a \<Rightarrow> thrown + 'a fsa" where
  "actionWith descriptor a =
     (case (case eval_field (payload descriptor) a of
              Inr v \<Rightarrow> Inr (descriptor\<lparr>payload := Some (Static v)\<rparr>)
            | Inl e \<Rightarrow>
                (case message_of e of
                   Inl t \<Rightarrow> Inl t
                 | Inr m \<Rightarrow> Inr (descriptor\<lparr>payload := Some (Static (InternalError m)),
                                              error := Some (P (Bool True))\<rparr>))) of
        Inl t \<Rightarrow> Inl t
      | Inr d1 \<Rightarrow>
          (case eval_field (meta d1) a of
             Inr v \<Rightarrow> Inr (d1\<lparr>meta := Some (Static v)\<rparr>)
           | Inl e \<Rightarrow>
               (case message_of e of
                  Inl t \<Rightarrow> Inl t
                | Inr m \<Rightarrow> Inr (d1\<lparr>meta := None,
                                    payload := Some (Static (InternalError m)),
                                    error := Some (P (Bool True))\<rparr>))))"

section \<open>The middleware (middleware.js)\<close>

text \<open>
  The call descriptor \<^verbatim>\<open>action[CALL_API]\<close>. \<open>types\<close> is \<open>None\<close> when the property is
  absent or is not an array (\<^verbatim>\<open>types && Array.isArray(types)\<close> fails); such a value is
  taken not to be iterable either.
\<close>

record 's rsaa =
  endpoint :: "'s dyn"
  headers :: "'s dyn"
  options :: "'s dyn"
  method' :: val
  body :: val
  credentials :: val
  bailout :: "'s dyn"
  types :: "'s args slot list option"

text \<open>An action: the call descriptor, when it has one, and its other properties.\<close>

record 's action =
  call_api :: "'s rsaa option"
  others :: "(string \<times> val) list"

text \<open>
  The object literal forwarded for an invalid RSAA,
  \<^verbatim>\<open>{ type: _requestType, payload: new InvalidRSAA(validationErrors), error: true }\<close>:
  its type is whatever the first slot holds.
\<close>

record 'a invalid_fsa =
  itype :: "'a slot"
  ipayload :: val
  ierror :: val

text \<open>What \<^verbatim>\<open>next\<close> is called with.\<close>

datatype 's forwarded =
    Action "'s action"
  | FSA "'s args fsa"
  | Invalid "'s args invalid_fsa"

datatype field = Bailout | Endpoint | Headers | Options

text \<open>
  The observable steps of one run, in order: a call of \<^verbatim>\<open>next\<close>, a call of a function
  field of the call descriptor with the state it was given, a call of the transport with
  the endpoint and the options bundle.
\<close>

datatype 's event =
    Next "'s forwarded"
  | Invoke field 's
  | Fetch val val

text \<open>
  The collaborators of the stage: the validation rule set of \<^verbatim>\<open>validation.js\<close>, the
  transport (\<open>Inl\<close> is a throw or a rejection, with the value thrown) and what the rest of the
  pipeline does to the application state when \<^verbatim>\<open>next\<close> hands it a value.
\<close>

record 's env =
  validateRSAA :: "'s action \<Rightarrow> string list"
  fetch :: "val \<Rightarrow> val \<Rightarrow> thrown + response"
  reduce :: "'s \<Rightarrow> 's forwarded \<Rightarrow> 's"

text \<open>\<open>store\<close> is what \<^verbatim>\<open>getState()\<close> returns.\<close>

record 's world =
  store :: 's
  trace :: "'s event list"

text \<open>
  Modelled from the spec: \<^verbatim>\<open>isRSAA\<close> of \<^verbatim>\<open>validation.js\<close>, which is not among the
  sources. An API-call request is a request carrying the call-descriptor property.
\<close>

definition isRSAA :: "'s action \<Rightarrow> bool" where
  "isRSAA action = (call_api action \<noteq> None)"

definition next_stage :: "'s env \<Rightarrow> 's forwarded \<Rightarrow> 's world \<Rightarrow> 's world" where
  "next_stage env a w = \<lparr> store = reduce env (store w) a, trace = trace w @ [Next a] \<rparr>"

text \<open>
  \<^verbatim>\<open>_requestType = types[0]; if (_requestType && _requestType.type) _requestType =
  _requestType.type\<close>. A primitive has no \<^verbatim>\<open>type\<close> property.
\<close>

fun requestTypeOf :: "'a slot \<Rightarrow> 'a slot" where
  "requestTypeOf (Full d) = (if truthy_prim (dtype d) then Bare (dtype d) else Full d)"
| "requestTypeOf (Bare p) = Bare p"

text \<open>\<^verbatim>\<open>_extends({}, t)\<close>: the own keys of a slot, as a fresh object.\<close>

fun object_of :: "'a slot \<Rightarrow> 'a fsa" where
  "object_of (Full d) = \<lparr> dtype = dtype d, payload = payload d, meta = meta d, error = None \<rparr>"
| "object_of (Bare p) = \<lparr> dtype = Undefined, payload = None, meta = None, error = None \<rparr>"

text \<open>
  The block every failure before the response runs:
  \<^verbatim>\<open>next(await actionWith({ ...requestType, payload: new RequestError(msg), error: true },
  [action, getState()]))\<close>. It runs in a \<^verbatim>\<open>catch\<close> handler, outside every \<^verbatim>\<open>try\<close>:
  when \<^verbatim>\<open>actionWith\<close> rejects, the stage rejects and \<^verbatim>\<open>next\<close> is not called.
\<close>

definition request_error ::
  "'s env \<Rightarrow> 's args fsa \<Rightarrow> val \<Rightarrow> 's world \<Rightarrow> thrown option \<times> 's world" where
  "request_error env requestType msg w =
     (case actionWith
             (requestType\<lparr>payload := Some (Static (RequestError msg)),
                           error := Some (P (Bool True))\<rparr>)
             (store w, None) of
        Inl t \<Rightarrow> (Some t, w)
      | Inr a \<Rightarrow> (None, next_stage env (FSA a) w))"

text \<open>
  \<^verbatim>\<open>typeof bailout === 'boolean' && bailout || typeof bailout === 'function' &&
  bailout(getState())\<close>
\<close>

definition should_bail :: "'s dyn \<Rightarrow> 's world \<Rightarrow> (thrown + bool) \<times> 's world" where
  "should_bail b w =
     (case b of
        Static v \<Rightarrow> (Inr (v = P (Bool True)), w)
      | Dynamic f \<Rightarrow>
          ((case f (store w) of Inl e \<Rightarrow> Inl e | Inr v \<Rightarrow> Inr (truthy v)),
           w\<lparr>trace := trace w @ [Invoke Bailout (store w)]\<rparr>))"

text \<open>
  \<^verbatim>\<open>if (typeof x === 'function') { x = x(getState()) }\<close>, the same for endpoint, headers
  and options.
\<close>

definition resolve :: "field \<Rightarrow> 's dyn \<Rightarrow> 's world \<Rightarrow> (thrown + val) \<times> 's world" where
  "resolve fld x w =
     (case x of
        Static v \<Rightarrow> (Inr v, w)
      | Dynamic f \<Rightarrow> (f (store w), w\<lparr>trace := trace w @ [Invoke fld (store w)]\<rparr>))"

text \<open>\<^verbatim>\<open>options = _callAPI$options === undefined ? {} : _callAPI$options\<close>\<close>

fun options_default :: "'s dyn \<Rightarrow> 's dyn" where
  "options_default (Static (P Undefined)) = Static (Obj [])"
| "options_default x = x"

text \<open>
  \<^verbatim>\<open>_extends({}, options, { method, body, credentials, headers })\<close>: the own enumerable
  properties of \<open>options\<close>, then the four keys, a later key replacing an earlier one.
\<close>

fun digits :: "nat \<Rightarrow> string" where
  "digits n =
     (if n < 10 then [char_of (48 + n)] else digits (n div 10) @ [char_of (48 + n mod 10)])"

definition indexed :: "val list \<Rightarrow> (string \<times> val) list" where
  "indexed vs = zip (map digits [0..<length vs]) vs"

fun own_props :: "val \<Rightarrow> (string \<times> val) list" where
  "own_props (Obj ps) = ps"
| "own_props (Arr vs) = indexed vs"
| "own_props (P (Str s)) = indexed (map (\<lambda>c. P (Str [c])) s)"
| "own_props v = []"

definition extends :: "(string \<times> val) list \<Rightarrow> (string \<times> val) list \<Rightarrow> (string \<times> val) list" where
  "extends base ext = fold (\<lambda>(k, v). AList.update k v) ext base"

definition fetch_config :: "val \<Rightarrow> val \<Rightarrow> val \<Rightarrow> val \<Rightarrow> val \<Rightarrow> val" where
  "fetch_config opts m b c h =
     Obj (extends (own_props opts)
       [(''method'', m), (''body'', b), (''credentials'', c), (''headers'', h)])"

text \<open>
  From "We can now dispatch the request FSA" to the end. \<^verbatim>\<open>actionWith\<close> assigns to the
  request descriptor itself, so the object forwarded first is also the one the
  transport-failure branch spreads. A request slot that is not an object cannot be assigned
  to: \<^verbatim>\<open>actionWith\<close> rejects. No \<^verbatim>\<open>await actionWith\<close> is inside a \<^verbatim>\<open>try\<close>, and
  the handler of the transport failure reads the \<^verbatim>\<open>message\<close> of what was thrown:
  when one of them throws, the stage rejects without calling \<^verbatim>\<open>next\<close> again.
\<close>

definition perform ::
  "'s env \<Rightarrow> 's args slot \<Rightarrow> 's args descriptor \<Rightarrow> 's args descriptor \<Rightarrow> val \<Rightarrow> val
     \<Rightarrow> 's world \<Rightarrow> thrown option \<times> 's world" where
  "perform env requestType successType failureType endpoint' config w =
     (case requestType of
        Bare p \<Rightarrow> (Some (new_Error ''TypeError: cannot create property payload''), w)
      | Full d \<Rightarrow>
          (case actionWith (object_of requestType) (store w, None) of
             Inl t \<Rightarrow> (Some t, w)
           | Inr requestFSA \<Rightarrow>
               (let w1 = next_stage env (FSA requestFSA) w;
                    w2 = w1\<lparr>trace := trace w1 @ [Fetch endpoint' config]\<rparr>
                in (case fetch env endpoint' config of
                      Inl e \<Rightarrow>
                        (case message_of e of
                           Inl t \<Rightarrow> (Some t, w2)
                         | Inr msg \<Rightarrow> request_error env requestFSA msg w2)
                    | Inr res \<Rightarrow>
                        (case (if ok res
                               then actionWith (object_of (Full successType))
                                      (store w2, Some res)
                               else actionWith
                                      ((object_of (Full failureType))
                                         \<lparr>error := Some (P (Bool True))\<rparr>)
                                      (store w2, Some res)) of
                           Inl t \<Rightarrow> (Some t, w2)
                         | Inr a \<Rightarrow> (None, next_stage env (FSA a) w2))))))"

definition apiMiddleware :: "'s env \<Rightarrow> 's action \<Rightarrow> 's world \<Rightarrow> thrown option \<times> 's world" where
  "apiMiddleware env action w =
     (if \<not> isRSAA action then (None, next_stage env (Action action) w)
      else
        (case call_api action of
           None \<Rightarrow> (Some (new_Error ''TypeError: cannot read property types''), w)
         | Some callAPI \<Rightarrow>
             (let validationErrors = validateRSAA env action in
              if validationErrors \<noteq> [] then
                (case types callAPI of
                   None \<Rightarrow> (None, w)
                 | Some ts \<Rightarrow>
                     (None, next_stage env
                        (Invalid \<lparr> itype = requestTypeOf (slot_at ts 0),
                                   ipayload = InvalidRSAA validationErrors,
                                   ierror = P (Bool True) \<rparr>) w))
              else
                (case types callAPI of
                   None \<Rightarrow> (Some (new_Error ''TypeError: types is not iterable''), w)
                 | Some ts \<Rightarrow>
                     (case normalizeTypeDescriptors ts of
                        (requestType, successType, failureType) \<Rightarrow>
                     (case should_bail (bailout callAPI) w of
                        (Inl e, w0) \<Rightarrow>
                          request_error env (object_of requestType)
                            (P (Str ''[CALL_API].bailout function failed'')) w0
                      | (Inr True, w0) \<Rightarrow> (None, w0)
                      | (Inr False, w0) \<Rightarrow>
                     (case resolve Endpoint (endpoint callAPI) w0 of
                        (Inl e, w1) \<Rightarrow>
                          request_error env (object_of requestType)
                            (P (Str ''[CALL_API].endpoint function failed'')) w1
                      | (Inr endpoint', w1) \<Rightarrow>
                     (case resolve Headers (headers callAPI) w1 of
                        (Inl e, w2) \<Rightarrow>
                          request_error env (object_of requestType)
                            (P (Str ''[CALL_API].headers function failed'')) w2
                      | (Inr headers', w2) \<Rightarrow>
                     (case resolve Options (options_default (options callAPI)) w2 of
                        (Inl e, w3) \<Rightarrow>
                          request_error env (object_of requestType)
                            (P (Str ''[CALL_API].options function failed'')) w3
                      | (Inr options', w3) \<Rightarrow>
                          perform env requestType successType failureType endpoint'
                            (fetch_config options' (method' callAPI) (body callAPI)
                               (credentials callAPI) headers') w3)))))))))"

section \<open>Notions used in the statements\<close>

text \<open>A bare identifier of the types triple: a string or a symbol.\<close>

definition is_identifier :: "prim \<Rightarrow> bool" where
  "is_identifier p = (case p of Str s \<Rightarrow> True | Sym s \<Rightarrow> True | _ \<Rightarrow> False)"


text \<open>
  The identifier, the payload and the meta a slot sets. A slot that is neither an
  identifier nor an object sets nothing.
\<close>

fun slot_type :: "'a slot \<Rightarrow> prim" where
  "slot_type (Bare p) = (if is_identifier p then p else Undefined)"
| "slot_type (Full d) = dtype d"

fun slot_payload :: "'a slot \<Rightarrow> 'a dyn option" where
  "slot_payload (Bare p) = None"
| "slot_payload (Full d) = payload d"

fun slot_meta :: "'a slot \<Rightarrow> 'a dyn option" where
  "slot_meta (Bare p) = None"
| "slot_meta (Full d) = meta d"



text \<open>
  A field settles for an argument list when it is a value, or a function that returns, or a
  function that throws a value whose \<^verbatim>\<open>message\<close> can be read (anything but
  \<^verbatim>\<open>null\<close> and \<^verbatim>\<open>undefined\<close>).
\<close>

definition settles :: "'a dyn option \<Rightarrow> 'a \<Rightarrow> bool" where
  "settles fld a =
     (case eval_field fld a of
        Inr v \<Rightarrow> True
      | Inl e \<Rightarrow> (case message_of e of Inr m \<Rightarrow> True | Inl t \<Rightarrow> False))"

text \<open>
  The notification of a failure before the response, for the request slot \<open>r\<close> and the
  state \<open>st\<close>: the request type, \<^verbatim>\<open>error: true\<close>, and as payload the request error with
  the message \<open>msg\<close>, unless the \<^verbatim>\<open>meta\<close> function of the request slot throws: then the
  payload is the internal error with the message of what it threw, and meta is removed.
\<close>

definition request_failure :: "'s args slot \<Rightarrow> 's \<Rightarrow> string \<Rightarrow> 's args fsa \<Rightarrow> bool" where
  "request_failure r st msg n =
     (dtype n = slot_type r \<and> error n = Some (P (Bool True))
      \<and> (case eval_field (slot_meta r) (st, None) of
            Inr m \<Rightarrow> payload n = Some (Static (RequestError (P (Str msg))))
          | Inl e \<Rightarrow>
              (case message_of e of
                 Inr m \<Rightarrow> payload n = Some (Static (InternalError m)) \<and> meta n = None
               | Inl t \<Rightarrow> False)))"

section \<open>Example requests\<close>

definition throwing :: "thrown \<Rightarrow> 'a \<Rightarrow> thrown + val" where
  "throwing e a = Inl e"

definition returning :: "val \<Rightarrow> 'a \<Rightarrow> thrown + val" where
  "returning v a = Inr v"

definition json_response :: response where
  "json_response =
     \<lparr> headers_get = (\<lambda>h. if h = ''Content-Type'' then Some ''application/json'' else None),
       ok = True, status = 200, statusText = ''OK'',
       json = Inr (Obj [(''a'', P (Num 1))]) \<rparr>"

definition not_found_response :: response where
  "not_found_response =
     \<lparr> headers_get = (\<lambda>h. None), ok = False, status = 404, statusText = ''Not Found'',
       json = Inr (P Undefined) \<rparr>"

text \<open>
  An environment over a state that counts the values handed to \<^verbatim>\<open>next\<close>, with a fixed
  list of violations and a fixed outcome of the transport.
\<close>

definition example_env :: "string list \<Rightarrow> thrown + response \<Rightarrow> nat env" where
  "example_env violations outcome =
     \<lparr> validateRSAA = (\<lambda>a. violations), fetch = (\<lambda>e cfg. outcome),
       reduce = (\<lambda>s a. s + 1) \<rparr>"

definition example_rsaa :: "nat args slot list \<Rightarrow> nat rsaa" where
  "example_rsaa ts =
     \<lparr> endpoint = Static (P (Str ''/api/users'')), headers = Static (P Undefined),
       options = Static (P Undefined), method' = P (Str ''GET''), body = P Undefined,
       credentials = P Undefined, bailout = Static (P Undefined), types = Some ts \<rparr>"

definition example_action :: "nat rsaa \<Rightarrow> nat action" where
  "example_action c = \<lparr> call_api = Some c, others = [] \<rparr>"

definition bare_types :: "nat args slot list" where
  "bare_types = [Bare (Str ''REQUEST''), Bare (Str ''SUCCESS''), Bare (Str ''FAILURE'')]"

definition start :: "nat world" where
  "start = \<lparr> store = 0, trace = [] \<rparr>"

definition example_config :: val where
  "example_config =
     Obj [(''method'', P (Str ''GET'')), (''body'', P Undefined),
          (''credentials'', P Undefined), (''headers'', P Undefined)]"

text \<open>The example request with function-valued endpoint, headers and options.\<close>

definition dynamic_rsaa ::
  "(nat \<Rightarrow> thrown + val) \<Rightarrow> (nat \<Rightarrow> thrown + val) \<Rightarrow> (nat \<Rightarrow> thrown + val) \<Rightarrow> nat rsaa" where
  "dynamic_rsaa e h opts =
     (example_rsaa bare_types)
       \<lparr>endpoint := Dynamic e, headers := Dynamic h, options := Dynamic opts\<rparr>"

lemmas example_defs =
  throwing_def returning_def json_response_def not_found_response_def example_env_def
  example_rsaa_def example_action_def bare_types_def start_def example_config_def
  dynamic_rsaa_def new_Error_def

lemmas run_defs =
  apiMiddleware_def isRSAA_def normalizeTypeDescriptors_def slot_at_def should_bail_def
  resolve_def perform_def request_error_def next_stage_def actionWith_def eval_field_def
  fetch_config_def extends_def successPayload_def failurePayload_def Let_def

section \<open>JSON extraction\<close>

lemma not_int_zero_iff: "(NOT (i::int) \<noteq> 0) = (i \<noteq> - 1)"
  by (auto simp add: not_int_def)

lemma str_indexOf_ge: "- 1 \<le> str_indexOf s sub"
  by (induction s) (auto simp: Let_def)

lemma str_indexOf_absent: "sub \<noteq> [] \<Longrightarrow> (str_indexOf s sub = - 1) = (\<not> sublist sub s)"
proof (induction s)
  case Nil
  then show ?case by simp
next
  case (Cons c cs)
  have "- 1 \<le> str_indexOf cs sub" by (rule str_indexOf_ge)
  with Cons show ?case by (auto simp: Let_def sublist_Cons_right)
qed

lemma getJSON_cases:
  "getJSON res =
     (if status res = 204 \<or> status res = 205 then (Inr (P Undefined), 0)
      else (case headers_get res ''Content-Type'' of
              None \<Rightarrow> (Inr (P Undefined), 0)
            | Some ct \<Rightarrow>
                if sublist ''json'' ct then (json res, 1) else (Inr (P Undefined), 0)))"
  by (auto simp: getJSON_def emptyCodes_def Let_def not_int_zero_iff str_indexOf_absent
      split: option.splits)

text \<open>
  C8. For every response, \<^verbatim>\<open>getJSON\<close> resolves to \<^verbatim>\<open>undefined\<close> and does not invoke the
  body decoder when the status is 204 or 205, whatever the Content-Type header is, and also
  when that header is absent or does not contain \<^verbatim>\<open>json\<close>; in every other case it
  invokes the decoder once and returns (or rejects with) its outcome.
\<close>

theorem getJSON_gate:
  "getJSON res =
     (if status res = 204 \<or> status res = 205 then (Inr (P Undefined), 0)
      else (case headers_get res ''Content-Type'' of
              None \<Rightarrow> (Inr (P Undefined), 0)
            | Some ct \<Rightarrow>
                if sublist ''json'' ct then (json res, 1) else (Inr (P Undefined), 0)))"
  by (rule getJSON_cases)

lemma toLowerCase_content_type: "toLowerCase ''Content-Type'' = ''content-type''"
  by code_simp

lemma sublist_json: "sublist ''json'' ''application/json''"
  by (simp add: sublist_Cons_right)

text \<open>
  C10. For every JSON value \<open>j\<close>, \<^verbatim>\<open>fakeJsonResponse(j)\<close> has \<^verbatim>\<open>ok\<close> true, status 200 and
  status text OK, its header lookup answers \<^verbatim>\<open>application/json\<close> for Content-Type, which
  indicates JSON, and \<^verbatim>\<open>getJSON\<close> applied to it returns exactly \<open>j\<close>, from one call of
  the decoder.
\<close>

theorem fakeJsonResponse_roundtrip:
  "ok (fakeJsonResponse j) \<and> status (fakeJsonResponse j) = 200
   \<and> statusText (fakeJsonResponse j) = ''OK''
   \<and> headers_get (fakeJsonResponse j) ''Content-Type'' = Some ''application/json''
   \<and> sublist ''json'' ''application/json''
   \<and> getJSON (fakeJsonResponse j) = (Inr j, 1)"
  using getJSON_cases [of "fakeJsonResponse j"] sublist_json
  by (simp add: fakeJsonResponse_def fakeHeader_def toLowerCase_content_type)

section \<open>The normalizer\<close>

lemma wrap_identifier:
  "is_identifier p \<Longrightarrow> wrap (Bare p) = Full \<lparr> dtype = p, payload = None, meta = None \<rparr>"
  by (cases p) (simp_all add: is_identifier_def)

lemma wrap_idem: "wrap (wrap t) = wrap t"
  by (induction t rule: wrap.induct) simp_all

lemma withDefault_payload: "payload (withDefault dflt t) \<noteq> None"
  by (cases t) (auto split: option.splits)

lemma withDefault_idem: "withDefault dflt (Full (withDefault dflt t)) = withDefault dflt t"
  using withDefault_payload [of dflt t] by (auto split: option.splits)

text \<open>
  C7. The normalizer wraps a bare identifier (a string or a symbol) of the triple as
  \<^verbatim>\<open>{ type: identifier }\<close>. The success slot gets a default payload resolver exactly when
  it has no payload key, and that resolver extracts the JSON body: applied to a response
  it is \<^verbatim>\<open>getJSON\<close> of that response. The failure slot gets a default payload resolver
  exactly when it has no payload key, and that resolver builds the API error from the
  status and the status text of the response and the body \<^verbatim>\<open>getJSON\<close> extracts (and
  rejects when \<^verbatim>\<open>getJSON\<close> does). A descriptor that sets its payload is returned as it
  is, meta included; the request descriptor is never changed; and normalizing the
  normalized triple returns it unchanged.
\<close>

theorem normalizeTypeDescriptors_defaults:
  "(is_identifier p \<longrightarrow>
      fst (normalizeTypeDescriptors [Bare p, s, f])
        = Full \<lparr> dtype = p, payload = None, meta = None \<rparr>
      \<and> fst (snd (normalizeTypeDescriptors [r, Bare p, f]))
        = \<lparr> dtype = p, payload = Some (Dynamic successPayload), meta = None \<rparr>
      \<and> snd (snd (normalizeTypeDescriptors [r, s, Bare p]))
        = \<lparr> dtype = p, payload = Some (Dynamic failurePayload), meta = None \<rparr>)
   \<and> (payload d0 = None \<longrightarrow>
      fst (snd (normalizeTypeDescriptors [r, Full d0, f]))
        = d0\<lparr>payload := Some (Dynamic successPayload)\<rparr>
      \<and> snd (snd (normalizeTypeDescriptors [r, s, Full d0]))
        = d0\<lparr>payload := Some (Dynamic failurePayload)\<rparr>)
   \<and> (payload d1 \<noteq> None \<longrightarrow>
      fst (snd (normalizeTypeDescriptors [r, Full d1, f])) = d1
      \<and> snd (snd (normalizeTypeDescriptors [r, s, Full d1])) = d1)
   \<and> fst (normalizeTypeDescriptors [Full d, s, f]) = Full d
   \<and> (normalizeTypeDescriptors [r, s, f] = (r', s', f') \<longrightarrow>
      normalizeTypeDescriptors [r', Full s', Full f'] = (r', s', f'))
   \<and> successPayload (st, Some res) = fst (getJSON res)
   \<and> (fst (getJSON res) = Inr j \<longrightarrow>
      failurePayload (st, Some res) = Inr (ApiError (status res) (statusText res) j))
   \<and> (fst (getJSON res) = Inl e \<longrightarrow> failurePayload (st, Some res) = Inl e)"
proof -
  have idem: "normalizeTypeDescriptors [r', Full s', Full f'] = (r', s', f')"
    if "normalizeTypeDescriptors [r, s, f] = (r', s', f')"
    using that
    by (auto simp: normalizeTypeDescriptors_def slot_at_def wrap_idem withDefault_idem
        simp del: withDefault.simps)
  show ?thesis
    using idem
    by (auto simp: normalizeTypeDescriptors_def slot_at_def wrap_identifier
        successPayload_def failurePayload_def)
qed

theorem normalizeTypeDescriptors_defaults_witness:
  "is_identifier (Str ''REQUEST'')
   \<and> fst (normalizeTypeDescriptors
        [Bare (Str ''REQUEST''), Bare (Sym ''SUCCESS''), Bare (Str ''FAILURE'')
           :: unit args slot])
        = Full \<lparr> dtype = Str ''REQUEST'', payload = None, meta = None \<rparr>
   \<and> fst (snd (normalizeTypeDescriptors
        [Bare (Str ''REQUEST''),
         Full \<lparr> dtype = Str ''SUCCESS'', payload = Some (Static (P (Num 5))), meta = None \<rparr>,
         Bare (Str ''FAILURE'') :: unit args slot]))
        = \<lparr> dtype = Str ''SUCCESS'', payload = Some (Static (P (Num 5))), meta = None \<rparr>
   \<and> snd (snd (normalizeTypeDescriptors
        [Bare (Str ''REQUEST''), Bare (Str ''SUCCESS''),
         Full \<lparr> dtype = Str ''FAILURE'', payload = None, meta = Some (Static (P Null)) \<rparr>
           :: unit args slot]))
        = \<lparr> dtype = Str ''FAILURE'', payload = Some (Dynamic failurePayload),
            meta = Some (Static (P Null)) \<rparr>
   \<and> normalizeTypeDescriptors
        [Full \<lparr> dtype = Str ''REQUEST'', payload = None, meta = None \<rparr>,
         Full \<lparr> dtype = Str ''SUCCESS'', payload = Some (Dynamic successPayload),
                meta = None \<rparr>,
         Full \<lparr> dtype = Str ''FAILURE'', payload = Some (Dynamic failurePayload),
                meta = None \<rparr> :: unit args slot]
        = (Full \<lparr> dtype = Str ''REQUEST'', payload = None, meta = None \<rparr>,
           \<lparr> dtype = Str ''SUCCESS'', payload = Some (Dynamic successPayload), meta = None \<rparr>,
           \<lparr> dtype = Str ''FAILURE'', payload = Some (Dynamic failurePayload), meta = None \<rparr>)
   \<and> successPayload ((), Some json_response) = Inr (Obj [(''a'', P (Num 1))])
   \<and> failurePayload ((), Some not_found_response)
        = Inr (ApiError 404 ''Not Found'' (P Undefined))
   \<and> failurePayload ((), Some (json_response\<lparr>json := Inl (new_Error ''bad JSON'')\<rparr>))
        = Inl (new_Error ''bad JSON'')"
proof -
  have g: "fst (getJSON json_response) = Inr (Obj [(''a'', P (Num 1))])"
    "fst (getJSON not_found_response) = Inr (P Undefined)"
    "fst (getJSON (json_response\<lparr>json := Inl (new_Error ''bad JSON'')\<rparr>))
       = Inl (new_Error ''bad JSON'')"
    by (simp_all add: getJSON_cases json_response_def not_found_response_def sublist_json)
  show ?thesis
    using normalizeTypeDescriptors_defaults
      [where p = "Str ''REQUEST''" and s = "Bare (Sym ''SUCCESS'')"
         and f = "Bare (Str ''FAILURE'') :: unit args slot"
         and r = "Bare (Str ''REQUEST'')"
         and ?d1.0 = "\<lparr> dtype = Str ''SUCCESS'', payload = Some (Static (P (Num 5))),
                       meta = None \<rparr>"
         and st = "()" and res = json_response and j = "Obj [(''a'', P (Num 1))]"]
      normalizeTypeDescriptors_defaults
      [where s = "Bare (Str ''SUCCESS'')" and r = "Bare (Str ''REQUEST'') :: unit args slot"
         and ?d0.0 = "\<lparr> dtype = Str ''FAILURE'', payload = None,
                       meta = Some (Static (P Null)) \<rparr>"
         and st = "()" and res = not_found_response and j = "P Undefined"]
      normalizeTypeDescriptors_defaults
      [where r = "Bare (Str ''REQUEST'') :: unit args slot" and s = "Bare (Str ''SUCCESS'')"
         and f = "Bare (Str ''FAILURE'')"
         and r' = "Full \<lparr> dtype = Str ''REQUEST'', payload = None, meta = None \<rparr>"
         and s' = "\<lparr> dtype = Str ''SUCCESS'', payload = Some (Dynamic successPayload),
                     meta = None \<rparr>"
         and f' = "\<lparr> dtype = Str ''FAILURE'', payload = Some (Dynamic failurePayload),
                     meta = None \<rparr>"
         and st = "()" and res = "json_response\<lparr>json := Inl (new_Error ''bad JSON'')\<rparr>"
         and e = "new_Error ''bad JSON''"]
      g
    by (simp add: is_identifier_def normalizeTypeDescriptors_def slot_at_def
        not_found_response_def)
qed

section \<open>The resolution helper\<close>

lemma actionWith_cases:
  "actionWith d a =
     (case eval_field (payload d) a of
        Inl e \<Rightarrow>
          (case message_of e of
             Inl t \<Rightarrow> Inl t
           | Inr pm \<Rightarrow>
               (case eval_field (meta d) a of
                  Inr m \<Rightarrow> Inr (d\<lparr>payload := Some (Static (InternalError pm)),
                                   meta := Some (Static m), error := Some (P (Bool True))\<rparr>)
                | Inl e' \<Rightarrow>
                    (case message_of e' of
                       Inl t \<Rightarrow> Inl t
                     | Inr mm \<Rightarrow> Inr (d\<lparr>payload := Some (Static (InternalError mm)),
                                          meta := None, error := Some (P (Bool True))\<rparr>))))
      | Inr v \<Rightarrow>
          (case eval_field (meta d) a of
             Inr m \<Rightarrow> Inr (d\<lparr>payload := Some (Static v), meta := Some (Static m)\<rparr>)
           | Inl e' \<Rightarrow>
               (case message_of e' of
                  Inl t \<Rightarrow> Inl t
                | Inr mm \<Rightarrow> Inr (d\<lparr>payload := Some (Static (InternalError mm)),
                                     meta := None, error := Some (P (Bool True))\<rparr>))))"
  by (simp add: actionWith_def split: sum.splits)





text \<open>
  C6. The claim that \<^verbatim>\<open>actionWith\<close> never throws or rejects fails on the code: a payload
  function that throws \<^verbatim>\<open>null\<close>, or a meta function that rejects with
  \<^verbatim>\<open>undefined\<close>, is caught, but the handler reads \<^verbatim>\<open>e.message\<close>, which throws, and
  the promise \<^verbatim>\<open>actionWith\<close> returns is rejected with that \<^verbatim>\<open>TypeError\<close>.
\<close>

theorem actionWith_rejects_on_null:
  "actionWith
     \<lparr> dtype = Str ''SUCCESS'', payload = Some (Dynamic (throwing (Thrown Null))),
       meta = None, error = None \<rparr> (0::nat)
     = Inl (new_Error ''TypeError: cannot read property message'')
   \<and> actionWith
     \<lparr> dtype = Str ''SUCCESS'', payload = Some (Static (P (Num 1))),
       meta = Some (Dynamic (throwing (Thrown Undefined))), error = None \<rparr> (0::nat)
     = Inl (new_Error ''TypeError: cannot read property message'')"
  by (simp add: actionWith_def eval_field_def throwing_def)

section \<open>The middleware\<close>

lemma object_of_wrap:
  "dtype (object_of (wrap r)) = slot_type r"
  "payload (object_of (wrap r)) = slot_payload r"
  "meta (object_of (wrap r)) = slot_meta r"
  "error (object_of (wrap r)) = None"
  by (induction r rule: wrap.induct) (simp_all add: is_identifier_def)



lemma eval_field_Static: "eval_field (Some (Static v)) a = Inr v"
  by (simp add: eval_field_def)





lemma should_bail_cases:
  "should_bail (Static v) w = (Inr (v = P (Bool True)), w)"
  "should_bail (Dynamic g) w =
     ((case g (store w) of Inl e \<Rightarrow> Inl e | Inr v \<Rightarrow> Inr (truthy v)),
      w\<lparr>trace := trace w @ [Invoke Bailout (store w)]\<rparr>)"
  by (simp_all add: should_bail_def)


lemma request_error_shape:
  assumes "settles (slot_meta r) (store w, None)"
  shows "\<exists>n. request_error env (object_of (wrap r)) (P (Str msg)) w
         = (None, \<lparr> store = reduce env (store w) (FSA n), trace = trace w @ [Next (FSA n)] \<rparr>)
       \<and> request_failure r (store w) msg n"
  using assms
  by (auto simp: request_error_def next_stage_def request_failure_def actionWith_cases
      object_of_wrap eval_field_Static settles_def split: sum.splits)



lemma middleware_valid:
  assumes "call_api action = Some c" "validateRSAA env action = []" "types c = Some ts"
  shows "apiMiddleware env action w =
     (case should_bail (bailout c) w of
        (Inl e, w0) \<Rightarrow>
          request_error env (object_of (wrap (slot_at ts 0)))
            (P (Str ''[CALL_API].bailout function failed'')) w0
      | (Inr True, w0) \<Rightarrow> (None, w0)
      | (Inr False, w0) \<Rightarrow>
     (case resolve Endpoint (endpoint c) w0 of
        (Inl e, w1) \<Rightarrow>
          request_error env (object_of (wrap (slot_at ts 0)))
            (P (Str ''[CALL_API].endpoint function failed'')) w1
      | (Inr endpoint', w1) \<Rightarrow>
     (case resolve Headers (headers c) w1 of
        (Inl e, w2) \<Rightarrow>
          request_error env (object_of (wrap (slot_at ts 0)))
            (P (Str ''[CALL_API].headers function failed'')) w2
      | (Inr headers', w2) \<Rightarrow>
     (case resolve Options (options_default (options c)) w2 of
        (Inl e, w3) \<Rightarrow>
          request_error env (object_of (wrap (slot_at ts 0)))
            (P (Str ''[CALL_API].options function failed'')) w3
      | (Inr options', w3) \<Rightarrow>
          perform env (wrap (slot_at ts 0))
            (withDefault successPayload (wrap (slot_at ts 1)))
            (withDefault failurePayload (wrap (slot_at ts 2))) endpoint'
            (fetch_config options' (method' c) (body c) (credentials c) headers') w3))))"
  using assms
  by (simp add: apiMiddleware_def isRSAA_def normalizeTypeDescriptors_def Let_def
      del: One_nat_def)

text \<open>
  C9. For every request without the call-descriptor property, the stage hands that very
  request to \<^verbatim>\<open>next\<close> and does nothing else: the run adds this one step to the trace, and
  it is the same run whatever the validation rule set and the transport are.
\<close>

theorem pass_through_unchanged:
  assumes "call_api action = None"
  shows "apiMiddleware env action w
       = (None, \<lparr> store = reduce env (store w) (Action action),
                   trace = trace w @ [Next (Action action)] \<rparr>)
     \<and> (\<forall>v t. apiMiddleware (env\<lparr>validateRSAA := v, fetch := t\<rparr>) action w
            = apiMiddleware env action w)"
  using assms by (simp add: apiMiddleware_def isRSAA_def next_stage_def)

theorem pass_through_unchanged_witness:
  "apiMiddleware (example_env [''never consulted''] (Inl (new_Error ''never called'')))
     \<lparr> call_api = None, others = [(''type'', P (Str ''INCREMENT''))] \<rparr> start
     = (None,
        \<lparr> store = reduce (example_env [''never consulted''] (Inl (new_Error ''never called'')))
            (store start)
            (Action \<lparr> call_api = None, others = [(''type'', P (Str ''INCREMENT''))] \<rparr>),
          trace = trace start @
            [Next (Action \<lparr> call_api = None, others = [(''type'', P (Str ''INCREMENT''))] \<rparr>)] \<rparr>)
   \<and> (\<forall>v t. apiMiddleware
          ((example_env [''never consulted''] (Inl (new_Error ''never called'')))
             \<lparr>validateRSAA := v, fetch := t\<rparr>)
          \<lparr> call_api = None, others = [(''type'', P (Str ''INCREMENT''))] \<rparr> start
        = apiMiddleware (example_env [''never consulted''] (Inl (new_Error ''never called'')))
            \<lparr> call_api = None, others = [(''type'', P (Str ''INCREMENT''))] \<rparr> start)"
  by (rule pass_through_unchanged) simp

text \<open>
  C3. The rule that nothing is forwarded when the request type of an invalid request
  cannot be determined fails on the code. The code forwards whenever \<open>types\<close> is an
  array: for an empty array it forwards a notification whose type is \<^verbatim>\<open>undefined\<close>,
  and for a first slot holding a descriptor without a type it forwards a notification
  whose type is that descriptor object.
\<close>

theorem invalid_request_type_undetermined:
  "apiMiddleware
     (example_env [''[CALL_API].types must be an array of length 3''] (Inl (new_Error ''unused'')))
     (example_action (example_rsaa [])) start
     = (None,
        \<lparr> store = 1,
          trace =
            [Next (Invalid
               \<lparr> itype = Bare Undefined,
                 ipayload = InvalidRSAA [''[CALL_API].types must be an array of length 3''],
                 ierror = P (Bool True) \<rparr>)] \<rparr>)
   \<and> apiMiddleware
     (example_env [''Invalid request type''] (Inl (new_Error ''unused'')))
     (example_action (example_rsaa
        [Full \<lparr> dtype = Undefined, payload = None, meta = None \<rparr>,
         Bare (Str ''SUCCESS''), Bare (Str ''FAILURE'')])) start
     = (None,
        \<lparr> store = 1,
          trace =
            [Next (Invalid
               \<lparr> itype = Full \<lparr> dtype = Undefined, payload = None, meta = None \<rparr>,
                 ipayload = InvalidRSAA [''Invalid request type''],
                 ierror = P (Bool True) \<rparr>)] \<rparr>)"
  by (simp add: run_defs example_defs)

text \<open>
  C5, as the code has it. For every API-call request that passes validation and has a types
  array: if \<open>bailout\<close> is the boolean true, or a function that returns a truthy value
  for the current state, nothing is forwarded and the transport is not called; if the
  bailout function throws, and the \<^verbatim>\<open>meta\<close> of the request descriptor settles, exactly
  one notification is forwarded, of the request type and with \<^verbatim>\<open>error: true\<close>, and the
  run stops. Its payload is the request error \<^verbatim>\<open>[CALL_API].bailout function failed\<close>,
  unless the \<^verbatim>\<open>meta\<close> function of the request descriptor throws: then it is the internal
  error with the message of what that function threw.
\<close>

theorem bailout_stage:
  assumes "call_api action = Some c" "validateRSAA env action = []" "types c = Some ts"
  shows
    "(bailout c = Static (P (Bool True)) \<longrightarrow> apiMiddleware env action w = (None, w))
     \<and> (bailout c = Dynamic g \<and> g (store w) = Inr v \<and> truthy v \<longrightarrow>
          apiMiddleware env action w
            = (None, w\<lparr>trace := trace w @ [Invoke Bailout (store w)]\<rparr>))
     \<and> (bailout c = Dynamic g \<and> g (store w) = Inl e
          \<and> settles (slot_meta (slot_at ts 0)) (store w, None) \<longrightarrow>
          (\<exists>n. apiMiddleware env action w
                  = (None, \<lparr> store = reduce env (store w) (FSA n),
                              trace = trace w @ [Invoke Bailout (store w), Next (FSA n)] \<rparr>)
              \<and> request_failure (slot_at ts 0) (store w)
                   ''[CALL_API].bailout function failed'' n))"
proof -
  note mw = middleware_valid [OF assms, of w]
  have stop: "apiMiddleware env action w = (None, w)" if "bailout c = Static (P (Bool True))"
    using that by (simp add: mw should_bail_cases)
  have bail: "apiMiddleware env action w
      = (None, w\<lparr>trace := trace w @ [Invoke Bailout (store w)]\<rparr>)"
    if "bailout c = Dynamic g" "g (store w) = Inr v" "truthy v"
    using that by (simp add: mw should_bail_cases)
  have thrown: "\<exists>n. apiMiddleware env action w
        = (None, \<lparr> store = reduce env (store w) (FSA n),
                    trace = trace w @ [Invoke Bailout (store w), Next (FSA n)] \<rparr>)
      \<and> request_failure (slot_at ts 0) (store w) ''[CALL_API].bailout function failed'' n"
    if "bailout c = Dynamic g" "g (store w) = Inl e"
      "settles (slot_meta (slot_at ts 0)) (store w, None)"
    using that(1,2)
      request_error_shape [of "slot_at ts 0"
        "w\<lparr>trace := trace w @ [Invoke Bailout (store w)]\<rparr>" env
        "''[CALL_API].bailout function failed''"] that(3)
    by (simp add: mw should_bail_cases)
  show ?thesis
    using stop bail thrown by blast
qed

theorem bailout_stage_witness:
  "apiMiddleware (example_env [] (Inr json_response))
     (example_action ((example_rsaa bare_types)\<lparr>bailout := Static (P (Bool True))\<rparr>)) start
     = (None, start)
   \<and> apiMiddleware (example_env [] (Inr json_response))
     (example_action ((example_rsaa bare_types)\<lparr>bailout := Dynamic (returning (P (Bool True)))\<rparr>))
     start
     = (None, start\<lparr>trace := trace start @ [Invoke Bailout (store start)]\<rparr>)
   \<and> settles (slot_meta (slot_at bare_types 0)) (store start, None)
   \<and> (\<exists>n. apiMiddleware (example_env [] (Inr json_response))
          (example_action ((example_rsaa bare_types)
             \<lparr>bailout := Dynamic (throwing (new_Error ''no bailout''))\<rparr>)) start
          = (None, \<lparr> store = reduce (example_env [] (Inr json_response)) (store start) (FSA n),
                      trace = trace start @ [Invoke Bailout (store start), Next (FSA n)] \<rparr>)
        \<and> request_failure (slot_at bare_types 0) (store start)
             ''[CALL_API].bailout function failed'' n)"
proof -
  have s: "settles (slot_meta (slot_at bare_types 0)) (store start, None)"
    by (simp add: settles_def eval_field_def bare_types_def slot_at_def)
  show ?thesis
    using
      bailout_stage
        [where action = "example_action ((example_rsaa bare_types)
                           \<lparr>bailout := Static (P (Bool True))\<rparr>)"
           and c = "(example_rsaa bare_types)\<lparr>bailout := Static (P (Bool True))\<rparr>"
           and env = "example_env [] (Inr json_response)" and ts = bare_types and w = start
           and g = "returning (P (Bool True))" and v = "P (Bool True)"
           and e = "new_Error ''no bailout''"]
      bailout_stage
        [where action = "example_action ((example_rsaa bare_types)
                           \<lparr>bailout := Dynamic (returning (P (Bool True)))\<rparr>)"
           and c = "(example_rsaa bare_types)
                      \<lparr>bailout := Dynamic (returning (P (Bool True)))\<rparr>"
           and env = "example_env [] (Inr json_response)" and ts = bare_types and w = start
           and g = "returning (P (Bool True))" and v = "P (Bool True)"
           and e = "new_Error ''no bailout''"]
      bailout_stage
        [where action = "example_action ((example_rsaa bare_types)
                           \<lparr>bailout := Dynamic (throwing (new_Error ''no bailout''))\<rparr>)"
           and c = "(example_rsaa bare_types)
                      \<lparr>bailout := Dynamic (throwing (new_Error ''no bailout''))\<rparr>"
           and env = "example_env [] (Inr json_response)" and ts = bare_types and w = start
           and g = "throwing (new_Error ''no bailout'')" and e = "new_Error ''no bailout''"
           and v = "P (Bool True)"]
      s
    by (simp add: example_action_def example_rsaa_def example_env_def throwing_def
        returning_def)
qed

text \<open>
  The payload is not always the bailout request error: here the bailout function throws
  and the \<^verbatim>\<open>meta\<close> function of the request descriptor throws an error as well.
\<close>

theorem bailout_stage_counterexample:
  "apiMiddleware (example_env [] (Inr json_response))
     (example_action ((example_rsaa
        [Full \<lparr> dtype = Str ''REQUEST'', payload = None,
                meta = Some (Dynamic (throwing (new_Error ''meta failed''))) \<rparr>,
         Bare (Str ''SUCCESS''), Bare (Str ''FAILURE'')])
        \<lparr>bailout := Dynamic (throwing (new_Error ''no bailout''))\<rparr>)) start
     = (None,
        \<lparr> store = 1,
          trace =
            [Invoke Bailout 0,
             Next (FSA \<lparr> dtype = Str ''REQUEST'',
                         payload = Some (Static (InternalError (P (Str ''meta failed'')))),
                         meta = None, error = Some (P (Bool True)) \<rparr>)] \<rparr>)
   \<and> InternalError (P (Str ''meta failed''))
       \<noteq> RequestError (P (Str ''[CALL_API].bailout function failed''))"
  by (simp add: run_defs example_defs)










end
